theory Spec2Isabelle
  imports Main
begin

section \<open>JavaScript values\<close>

text \<open>
  The handler of \<^verbatim>\<open>POST /api/movie-recommendations\<close> in \<^verbatim>\<open>server.js\<close> reads
  loosely typed data: the request body and the messages of the agent session. They are
  plain data values: no property holds a function. The handler does no arithmetic; it
  observes a number only through its falsiness (\<^verbatim>\<open>0\<close>, \<^verbatim>\<open>-0\<close> and \<^verbatim>\<open>NaN\<close> are
  falsy) and through the text \<^verbatim>\<open>Number::toString\<close> gives for it when an array is joined.
  So \<open>JNum z t\<close> stands for a number by these two observations: \<open>z\<close> says that it is
  falsy, \<open>t\<close> is its text. A string is a list of code units, each below 256. An object
  lists its own properties, every name once.
\<close>

datatype jsval =
    JUndefined
  | JNull
  | JBool bool
  | JNum bool string
  | JStr string
  | JArr "jsval list"
  | JObj "(string \<times> jsval) list"

text \<open>\<^verbatim>\<open>!v\<close> is false exactly on the truthy values.\<close>

fun truthy :: "jsval \<Rightarrow> bool" where
  "truthy JUndefined = False"
| "truthy JNull = False"
| "truthy (JBool b) = b"
| "truthy (JNum z t) = (\<not> z)"
| "truthy (JStr s) = (s \<noteq> [])"
| "truthy (JArr xs) = True"
| "truthy (JObj kvs) = True"

fun nullish :: "jsval \<Rightarrow> bool" where
  "nullish JUndefined = True"
| "nullish JNull = True"
| "nullish v = False"

text \<open>\<^verbatim>\<open>typeof v === 'object'\<close>: objects, arrays and \<^verbatim>\<open>null\<close>.\<close>

fun typeof_object :: "jsval \<Rightarrow> bool" where
  "typeof_object JNull = True"
| "typeof_object (JArr xs) = True"
| "typeof_object (JObj kvs) = True"
| "typeof_object v = False"

text \<open>\<^verbatim>\<open>Array.isArray(v)\<close> and, for an array, \<^verbatim>\<open>v.length\<close>.\<close>

fun is_array :: "jsval \<Rightarrow> bool" where
  "is_array (JArr xs) = True"
| "is_array v = False"

fun array_length :: "jsval \<Rightarrow> nat" where
  "array_length (JArr xs) = length xs"
| "array_length v = 0"

text \<open>\<^verbatim>\<open>a || b\<close>\<close>

definition js_or :: "jsval \<Rightarrow> jsval \<Rightarrow> jsval" where
  "js_or a b = (if truthy a then a else b)"

text \<open>
  \<^verbatim>\<open>v.k\<close> on a value that is neither \<^verbatim>\<open>null\<close> nor \<^verbatim>\<open>undefined\<close>, for the property
  names the handler reads as data (\<^verbatim>\<open>type\<close>, \<^verbatim>\<open>subtype\<close>, \<^verbatim>\<open>result\<close>, \<^verbatim>\<open>errors\<close>,
  \<^verbatim>\<open>message\<close>, \<^verbatim>\<open>content\<close>, \<^verbatim>\<open>name\<close>, \<^verbatim>\<open>input\<close>, \<^verbatim>\<open>query\<close>, \<^verbatim>\<open>q\<close>, \<^verbatim>\<open>url\<close>,
  \<^verbatim>\<open>text\<close>, \<^verbatim>\<open>summary\<close>, \<^verbatim>\<open>tool_name\<close>, \<^verbatim>\<open>elapsed_time_seconds\<close>,
  \<^verbatim>\<open>favoriteMovies\<close>, \<^verbatim>\<open>moviePreferences\<close>): none of them is a property of an array,
  a string, a number or a boolean, so only an object can hold one.
\<close>

fun js_get :: "jsval \<Rightarrow> string \<Rightarrow> jsval" where
  "js_get (JObj kvs) k = (case map_of kvs k of Some v \<Rightarrow> v | None \<Rightarrow> JUndefined)"
| "js_get v k = JUndefined"

text \<open>\<^verbatim>\<open>v?.k\<close>\<close>

definition opt_get :: "jsval \<Rightarrow> string \<Rightarrow> jsval" where
  "opt_get v k = (if nullish v then JUndefined else js_get v k)"

text \<open>
  A \<^verbatim>\<open>TypeError\<close> raised by the engine, as the thrown value. The wording of the message
  is the engine's; the handler only tests it for falsiness.
\<close>

definition type_error :: "string \<Rightarrow> jsval" where
  "type_error m = JObj [(''name'', JStr ''TypeError''), (''message'', JStr m)]"

subsection \<open>Strings\<close>

text \<open>
  \<^verbatim>\<open>String.prototype.trim\<close> removes white space and line terminators from both ends;
  below 256 these are TAB, LF, VT, FF, CR, SP and NBSP.
\<close>

definition is_space :: "char \<Rightarrow> bool" where
  "is_space c = (c \<in> set [CHR 0x09, CHR 0x0A, CHR 0x0B, CHR 0x0C, CHR 0x0D, CHR 0x20, CHR 0xA0])"

definition trim :: "string \<Rightarrow> string" where
  "trim s = rev (dropWhile is_space (rev (dropWhile is_space s)))"

fun join_strs :: "string \<Rightarrow> string list \<Rightarrow> string" where
  "join_strs sep [] = []"
| "join_strs sep [s] = s"
| "join_strs sep (s # t # ts) = s @ sep @ join_strs sep (t # ts)"

text \<open>
  \<^verbatim>\<open>ToString(v)\<close> on plain data, which can throw. An array is joined with a comma. An
  object is converted through its \<^verbatim>\<open>toString\<close> and \<^verbatim>\<open>valueOf\<close> methods: with no own
  property \<^verbatim>\<open>toString\<close> the inherited method gives \<^verbatim>\<open>[object Object]\<close>; an own
  property \<^verbatim>\<open>toString\<close> holds data, which cannot be called, the inherited \<^verbatim>\<open>valueOf\<close>
  (or an own one, data again) gives no primitive value, and the conversion throws a
  \<^verbatim>\<open>TypeError\<close>. \<^verbatim>\<open>Array.prototype.join\<close> converts the elements in order, an element
  that is \<^verbatim>\<open>null\<close> or \<^verbatim>\<open>undefined\<close> to the empty string, and throws what the first
  failing conversion throws.
\<close>

fun to_string :: "jsval \<Rightarrow> jsval + string"
  and elements_to_strings :: "jsval list \<Rightarrow> jsval + string list" where
  "to_string JUndefined = Inr ''undefined''"
| "to_string JNull = Inr ''null''"
| "to_string (JBool b) = Inr (if b then ''true'' else ''false'')"
| "to_string (JNum z t) = Inr t"
| "to_string (JStr s) = Inr s"
| "to_string (JArr xs) =
     (case elements_to_strings xs of
        Inl e \<Rightarrow> Inl e
      | Inr ss \<Rightarrow> Inr (join_strs '','' ss))"
| "to_string (JObj kvs) =
     (if map_of kvs ''toString'' \<noteq> None
      then Inl (type_error ''Cannot convert object to primitive value'')
      else Inr ''[object Object]'')"
| "elements_to_strings [] = Inr []"
| "elements_to_strings (x # xs) =
     (case (if nullish x then Inr [] else to_string x) of
        Inl e \<Rightarrow> Inl e
      | Inr s \<Rightarrow>
          (case elements_to_strings xs of
             Inl e \<Rightarrow> Inl e
           | Inr ss \<Rightarrow> Inr (s # ss)))"

text \<open>\<^verbatim>\<open>xs.join(sep)\<close>\<close>

definition array_join :: "string \<Rightarrow> jsval list \<Rightarrow> jsval + string" where
  "array_join sep xs =
     (case elements_to_strings xs of
        Inl e \<Rightarrow> Inl e
      | Inr ss \<Rightarrow> Inr (join_strs sep ss))"

section \<open>Client events and the body of the relay loop\<close>

text \<open>
  The object literals handed to \<^verbatim>\<open>send\<close>, one constructor per \<^verbatim>\<open>type\<close> tag, holding the
  values of the other fields as the handler computes them.
\<close>

datatype event =
    Start jsval
  | Result jsval
  | Error jsval
  | Search jsval
  | Fetch jsval
  | Thinking jsval
  | Summary jsval
  | Tool_progress jsval jsval
  | Done

text \<open>
  One run of a piece of handler code is the list of events it passes to \<^verbatim>\<open>send\<close>, in
  order, and the value it throws, if it throws. \<^verbatim>\<open>send\<close> itself never throws
  (see \<open>send\<close> below), so the events do not depend on the connection.
\<close>

type_synonym emitted = "event list \<times> jsval option"

text \<open>\<^verbatim>\<open>block.text?.trim()\<close>: only a string has a \<^verbatim>\<open>trim\<close> to call.\<close>

fun text_trim :: "jsval \<Rightarrow> jsval + jsval" where
  "text_trim JUndefined = Inr JUndefined"
| "text_trim JNull = Inr JUndefined"
| "text_trim (JStr s) = Inr (JStr (trim s))"
| "text_trim v = Inl (type_error ''block.text?.trim is not a function'')"

text \<open>
  \<^verbatim>\<open>msg.errors?.join('; ')\<close>: only an array has a \<^verbatim>\<open>join\<close> to call, and the call
  throws when an element cannot be converted.
\<close>

fun errors_join :: "jsval \<Rightarrow> jsval + jsval" where
  "errors_join JUndefined = Inr JUndefined"
| "errors_join JNull = Inr JUndefined"
| "errors_join (JArr xs) =
     (case array_join ''; '' xs of Inl e \<Rightarrow> Inl e | Inr s \<Rightarrow> Inr (JStr s))"
| "errors_join v = Inl (type_error ''msg.errors?.join is not a function'')"

text \<open>The body of \<^verbatim>\<open>for (const block of msg.message.content)\<close>, lines 187 to 204.\<close>

definition relay_block :: "jsval \<Rightarrow> emitted" where
  "relay_block block =
     (if \<not> truthy block \<or> \<not> typeof_object block then ([], None)
      else if js_get block ''type'' = JStr ''tool_use'' then
        (if js_get block ''name'' = JStr ''WebSearch'' then
           ([Search (js_or (opt_get (js_get block ''input'') ''query'')
                      (js_or (opt_get (js_get block ''input'') ''q'') (JStr '''')))], None)
         else if js_get block ''name'' = JStr ''WebFetch'' then
           ([Fetch (js_or (opt_get (js_get block ''input'') ''url'') (JStr ''''))], None)
         else ([], None))
      else if js_get block ''type'' = JStr ''text'' then
        (case text_trim (js_get block ''text'') of
           Inl e \<Rightarrow> ([], Some e)
         | Inr t \<Rightarrow>
             if truthy t then
               (case t of
                  JStr text \<Rightarrow>
                    if length text > 0 \<and> length text < 500 then ([Thinking (JStr text)], None)
                    else ([], None)
                | _ \<Rightarrow> ([], None))
             else ([], None))
      else ([], None))"

text \<open>The \<^verbatim>\<open>for ... of\<close> over the blocks: the first block that throws ends it.\<close>

fun relay_blocks :: "jsval list \<Rightarrow> emitted" where
  "relay_blocks [] = ([], None)"
| "relay_blocks (b # bs) =
     (case relay_block b of
        (es, Some e) \<Rightarrow> (es, Some e)
      | (es, None) \<Rightarrow> (case relay_blocks bs of (es', r) \<Rightarrow> (es @ es', r)))"

text \<open>
  \<^verbatim>\<open>for (const block of content)\<close> for a truthy \<^verbatim>\<open>content\<close>: an array gives its
  elements; a string gives its characters, each a string and so skipped by the guard of
  the body; nothing else is iterable.
\<close>

fun iterate_content :: "jsval \<Rightarrow> emitted" where
  "iterate_content (JArr bs) = relay_blocks bs"
| "iterate_content (JStr s) = ([], None)"
| "iterate_content v = ([], Some (type_error ''msg.message.content is not iterable''))"

text \<open>The body of \<^verbatim>\<open>for await (const msg of ...)\<close>, lines 169 to 219.\<close>

definition relay_msg :: "jsval \<Rightarrow> emitted" where
  "relay_msg msg =
     (if \<not> truthy msg \<or> \<not> typeof_object msg then ([], None)
      else if js_get msg ''type'' = JStr ''result'' then
        (if js_get msg ''subtype'' = JStr ''success'' then ([Result (js_get msg ''result'')], None)
         else
           (case errors_join (js_get msg ''errors'') of
              Inl e \<Rightarrow> ([], Some e)
            | Inr joined \<Rightarrow>
                ([Error (js_or joined (JStr ''Research encountered an error''))], None)))
      else if js_get msg ''type'' = JStr ''assistant''
              \<and> truthy (opt_get (js_get msg ''message'') ''content'') then
        iterate_content (js_get (js_get msg ''message'') ''content'')
      else if js_get msg ''type'' = JStr ''tool_use_summary'' \<and> truthy (js_get msg ''summary'') then
        ([Summary (js_get msg ''summary'')], None)
      else if js_get msg ''type'' = JStr ''tool_progress'' \<and> truthy (js_get msg ''tool_name'') then
        ([Tool_progress (js_get msg ''tool_name'') (js_get msg ''elapsed_time_seconds'')], None)
      else ([], None))"

section \<open>The response and the keep-alive timer\<close>

text \<open>
  What \<^verbatim>\<open>res.write\<close> is called with: the frame \<^verbatim>\<open>data: <JSON of the event>\<close> built by
  \<^verbatim>\<open>send\<close>, or the comment frame \<^verbatim>\<open>: heartbeat\<close> of the timer. The JSON text itself is
  not modelled.
\<close>

datatype frame = Data event | Heartbeat

text \<open>
  The state the handler acts on: the headers set, the log of the calls of \<^verbatim>\<open>res.write\<close>
  in order (each with whether it succeeded), the interval timer \<^verbatim>\<open>heartbeat\<close> (whether
  it is active, and how often \<^verbatim>\<open>setInterval\<close> and \<^verbatim>\<open>clearInterval\<close> were called), and
  whether \<^verbatim>\<open>res.end\<close> was called.
\<close>

record response_state =
  headers :: "(string \<times> string) list"
  calls :: "(frame \<times> bool) list"
  heartbeat_active :: bool
  set_calls :: nat
  clear_calls :: nat
  ended :: bool

text \<open>
  The connection is the environment: it decides, for the n-th call of \<^verbatim>\<open>res.write\<close>
  (counted from 0), whether the call succeeds or throws.
\<close>

type_synonym connection = "nat \<Rightarrow> bool"

definition res_write :: "connection \<Rightarrow> frame \<Rightarrow> response_state \<Rightarrow> bool \<times> response_state" where
  "res_write conn f s =
     (conn (length (calls s)), s\<lparr>calls := calls s @ [(f, conn (length (calls s)))]\<rparr>)"

text \<open>\<^verbatim>\<open>send\<close>, lines 145 to 151: the \<^verbatim>\<open>catch\<close> is empty.\<close>

definition send :: "connection \<Rightarrow> event \<Rightarrow> response_state \<Rightarrow> response_state" where
  "send conn data s = (case res_write conn (Data data) s of (ok, s') \<Rightarrow> s')"

fun sends :: "connection \<Rightarrow> event list \<Rightarrow> response_state \<Rightarrow> response_state" where
  "sends conn [] s = s"
| "sends conn (e # es) s = sends conn es (send conn e s)"

text \<open>
  \<^verbatim>\<open>setInterval\<close> starts the timer \<^verbatim>\<open>heartbeat\<close>; \<^verbatim>\<open>clearInterval(heartbeat)\<close> stops
  it, and does nothing to a timer that is stopped already.
\<close>

definition setInterval :: "response_state \<Rightarrow> response_state" where
  "setInterval s = s\<lparr>heartbeat_active := True, set_calls := set_calls s + 1\<rparr>"

definition clearInterval :: "response_state \<Rightarrow> response_state" where
  "clearInterval s = s\<lparr>heartbeat_active := False, clear_calls := clear_calls s + 1\<rparr>"

text \<open>
  One firing of the timer, lines 154 to 160. A timer that is not active does not fire.
\<close>

definition heartbeat_fire :: "connection \<Rightarrow> response_state \<Rightarrow> response_state" where
  "heartbeat_fire conn s =
     (if \<not> heartbeat_active s then s
      else (case res_write conn Heartbeat s of
              (ok, s') \<Rightarrow> if ok then s' else clearInterval s'))"

fun heartbeat_fires :: "connection \<Rightarrow> nat \<Rightarrow> response_state \<Rightarrow> response_state" where
  "heartbeat_fires conn 0 s = s"
| "heartbeat_fires conn (Suc n) s = heartbeat_fires conn n (heartbeat_fire conn s)"

section \<open>The agent session and the relay\<close>

text \<open>
  \<^verbatim>\<open>runMovieAgent\<close> passes on the messages of the agent SDK's \<^verbatim>\<open>query\<close>, which is not
  part of the repository. A session that ends is the messages it yields and how it ends:
  exhausted, or throwing. While the handler awaits the next message the timer may fire,
  so a session is given together with the firings that fall into each wait. (A session
  that never ends keeps the handler waiting for ever; it has no run to speak of. A firing
  while the loop closes the session after a throw of its body would add one more
  heartbeat frame before the \<^verbatim>\<open>catch\<close> block and is left out.)
\<close>

datatype ending = Exhausted | Raised jsval

datatype wait = Tick | Yield jsval

type_synonym session = "wait list \<times> ending"

text \<open>
  \<^verbatim>\<open>await import('./movie-agent.js')\<close> either throws or gives \<^verbatim>\<open>runMovieAgent\<close>, a
  function of the favourites and the preferences.
\<close>

datatype agent_import = Import_fails jsval | Imported "jsval \<Rightarrow> jsval \<Rightarrow> session"

text \<open>The \<^verbatim>\<open>for await\<close> loop, lines 168 to 220.\<close>

fun relay_loop ::
  "connection \<Rightarrow> wait list \<Rightarrow> ending \<Rightarrow> response_state \<Rightarrow> response_state \<times> jsval option" where
  "relay_loop conn [] Exhausted s = (s, None)"
| "relay_loop conn [] (Raised e) s = (s, Some e)"
| "relay_loop conn (Tick # ws) en s = relay_loop conn ws en (heartbeat_fire conn s)"
| "relay_loop conn (Yield msg # ws) en s =
     (case relay_msg msg of
        (es, Some e) \<Rightarrow> (sends conn es s, Some e)
      | (es, None) \<Rightarrow> relay_loop conn ws en (sends conn es s))"

text \<open>
  The \<^verbatim>\<open>catch\<close> block, lines 223 to 225. Reading \<^verbatim>\<open>err.message\<close> throws in turn when
  the thrown value is \<^verbatim>\<open>null\<close> or \<^verbatim>\<open>undefined\<close>.
\<close>

definition catch_block ::
  "connection \<Rightarrow> jsval \<Rightarrow> response_state \<Rightarrow> response_state \<times> jsval option" where
  "catch_block conn err s =
     (if nullish err then (s, Some (type_error ''Cannot read properties of undefined''))
      else (send conn (Error (js_or (js_get err ''message'')
                                (JStr ''An unexpected error occurred''))) s, None))"

text \<open>The \<^verbatim>\<open>finally\<close> block, lines 226 to 229.\<close>

definition finally_block :: "response_state \<Rightarrow> response_state" where
  "finally_block s = (clearInterval s)\<lparr>ended := True\<rparr>"

text \<open>The state once the headers are flushed and \<^verbatim>\<open>setInterval\<close> has been called.\<close>

definition streaming_begun :: response_state where
  "streaming_begun =
     setInterval
       \<lparr>headers = [(''Content-Type'', ''text/event-stream''), (''Cache-Control'', ''no-cache''),
                   (''Connection'', ''keep-alive''), (''X-Accel-Buffering'', ''no'')],
        calls = [], heartbeat_active = False, set_calls = 0, clear_calls = 0,
        ended = False\<rparr>"

text \<open>The \<^verbatim>\<open>try\<close> block, lines 162 to 222; \<open>pre\<close> timer firings fall into the import.\<close>

definition try_block ::
  "connection \<Rightarrow> nat \<Rightarrow> agent_import \<Rightarrow> jsval \<Rightarrow> jsval \<Rightarrow> response_state \<times> jsval option" where
  "try_block conn pre agent favoriteMovies moviePreferences =
     (let s1 = heartbeat_fires conn pre streaming_begun in
      case agent of
        Import_fails e \<Rightarrow> (s1, Some e)
      | Imported runMovieAgent \<Rightarrow>
          (let prefs = js_or moviePreferences (JObj []);
               s2 = send conn
                      (Start (JStr ''Starting deep research into your movie taste...'')) s1
           in case runMovieAgent favoriteMovies prefs of
                (ws, en) \<Rightarrow>
                  (case relay_loop conn ws en s2 of
                     (s3, Some e) \<Rightarrow> (s3, Some e)
                   | (s3, None) \<Rightarrow> (send conn Done s3, None))))"

text \<open>
  Lines 138 to 229: the final state, and the value the handler's promise rejects with
  when the \<^verbatim>\<open>catch\<close> block itself throws.
\<close>

definition stream ::
  "connection \<Rightarrow> nat \<Rightarrow> agent_import \<Rightarrow> jsval \<Rightarrow> jsval \<Rightarrow> response_state \<times> jsval option" where
  "stream conn pre agent favoriteMovies moviePreferences =
     (case try_block conn pre agent favoriteMovies moviePreferences of
        (s, None) \<Rightarrow> (finally_block s, None)
      | (s, Some err) \<Rightarrow> (case catch_block conn err s of (s', r) \<Rightarrow> (finally_block s', r)))"

section \<open>The handler\<close>

datatype response =
    Json_response nat jsval
  | Streamed response_state "jsval option"
  | Rejected jsval

text \<open>
  \<^verbatim>\<open>app.post('/api/movie-recommendations', ...)\<close>, lines 127 to 230. \<open>key\<close> is
  \<^verbatim>\<open>process.env.ANTHROPIC_API_KEY\<close>, a string when set. Destructuring a body that is
  \<^verbatim>\<open>null\<close> or \<^verbatim>\<open>undefined\<close> throws before anything is written.
\<close>

definition handler ::
  "connection \<Rightarrow> string option \<Rightarrow> nat \<Rightarrow> agent_import \<Rightarrow> jsval \<Rightarrow> response" where
  "handler conn key pre agent body =
     (if nullish body then Rejected (type_error ''Cannot destructure property favoriteMovies'')
      else
        (let favoriteMovies = js_get body ''favoriteMovies'';
             moviePreferences = js_get body ''moviePreferences''
         in if \<not> is_array favoriteMovies \<or> array_length favoriteMovies = 0 then
              Json_response 400
                (JObj [(''error'', JStr ''favoriteMovies must be a non-empty array'')])
            else if (case key of None \<Rightarrow> True | Some k \<Rightarrow> k = []) then
              Json_response 500
                (JObj [(''error'', JStr ''ANTHROPIC_API_KEY environment variable is not set'')])
            else
              (case stream conn pre agent favoriteMovies moviePreferences of
                 (s, r) \<Rightarrow> Streamed s r)))"

text \<open>The events handed to \<^verbatim>\<open>send\<close>, in order, and the frames that were written.\<close>

fun data_events :: "(frame \<times> bool) list \<Rightarrow> event list" where
  "data_events [] = []"
| "data_events ((Data e, ok) # cs) = e # data_events cs"
| "data_events ((Heartbeat, ok) # cs) = data_events cs"

definition sent :: "response_state \<Rightarrow> event list" where
  "sent s = data_events (calls s)"

definition written :: "response_state \<Rightarrow> frame list" where
  "written s = map fst (filter snd (calls s))"

subsection \<open>The loop seen without the connection\<close>

text \<open>The messages a session yields, and the events the loop hands to \<^verbatim>\<open>send\<close> for them.\<close>

fun yielded :: "wait list \<Rightarrow> jsval list" where
  "yielded [] = []"
| "yielded (Tick # ws) = yielded ws"
| "yielded (Yield m # ws) = m # yielded ws"

fun relay_msgs :: "jsval list \<Rightarrow> emitted" where
  "relay_msgs [] = ([], None)"
| "relay_msgs (m # ms) =
     (case relay_msg m of
        (es, Some e) \<Rightarrow> (es, Some e)
      | (es, None) \<Rightarrow> (case relay_msgs ms of (es', r) \<Rightarrow> (es @ es', r)))"

text \<open>The events that report the outcome of the research: \<^verbatim>\<open>result\<close> and \<^verbatim>\<open>error\<close>.\<close>

fun is_final :: "event \<Rightarrow> bool" where
  "is_final (Result c) = True"
| "is_final (Error m) = True"
| "is_final e = False"

text \<open>
  What leaves the loop as an exception: the first throw of the loop body, or else the
  throw that ends the session.
\<close>

definition thrown :: "wait list \<Rightarrow> ending \<Rightarrow> jsval option" where
  "thrown ws en =
     (case snd (relay_msgs (yielded ws)) of
        Some e \<Rightarrow> Some e
      | None \<Rightarrow> (case en of Exhausted \<Rightarrow> None | Raised e \<Rightarrow> Some e))"

text \<open>
  The values whose conversion to a string throws: an object with an own property
  \<^verbatim>\<open>toString\<close>, and an array that holds such a value.
\<close>

fun unprintable :: "jsval \<Rightarrow> bool" where
  "unprintable (JObj kvs) = (map_of kvs ''toString'' \<noteq> None)"
| "unprintable (JArr xs) = (\<exists>x \<in> set xs. unprintable x)"
| "unprintable v = False"




definition log_inv :: "connection \<Rightarrow> response_state \<Rightarrow> bool" where
  "log_inv conn s \<longleftrightarrow> map snd (calls s) = map conn [0 ..< length (calls s)]"

text \<open>What the \<^verbatim>\<open>catch\<close> block sends for a thrown value.\<close>

definition caught :: "jsval \<Rightarrow> event list" where
  "caught err =
     (if nullish err then []
      else [Error (js_or (js_get err ''message'') (JStr ''An unexpected error occurred''))])"

section \<open>Properties of the loop body\<close>

lemma js_get_type_obj: "js_get v k = JStr t \<Longrightarrow> truthy v \<and> typeof_object v"
  by (cases v) auto

lemma join_strs_empty: "sep \<noteq> [] \<Longrightarrow> join_strs sep ds = [] \<longleftrightarrow> ds = [] \<or> ds = [[]]"
  by (induction sep ds rule: join_strs.induct) auto

lemma elements_to_strings_strs: "elements_to_strings (map JStr ds) = Inr ds"
  by (induction ds) auto

lemma array_join_strs: "array_join sep (map JStr ds) = Inr (join_strs sep ds)"
  by (simp add: array_join_def elements_to_strings_strs)

text \<open>
  C5 (as amended). For a message of type \<^verbatim>\<open>result\<close>: with subtype \<^verbatim>\<open>success\<close> the loop
  body sends one \<^verbatim>\<open>result\<close> event whose content is the message's \<^verbatim>\<open>result\<close> field as
  it is. Otherwise it sends one \<^verbatim>\<open>error\<close> event; for an array of error descriptions
  the message is the descriptions joined by \<^verbatim>\<open>"; "\<close> when that text is not empty, and
  the fallback \<^verbatim>\<open>Research encountered an error\<close> when it is empty, which is when the
  array is empty or holds one empty description; the fallback is also used when the
  \<^verbatim>\<open>errors\<close> field is absent.
\<close>

theorem final_result_events:
  assumes "js_get msg ''type'' = JStr ''result''"
  shows "(js_get msg ''subtype'' = JStr ''success'' \<longrightarrow>
            relay_msg msg = ([Result (js_get msg ''result'')], None))
       \<and> (js_get msg ''subtype'' \<noteq> JStr ''success''
            \<and> js_get msg ''errors'' = JArr (map JStr ds) \<longrightarrow>
            relay_msg msg =
              ([Error (JStr (if ds = [] \<or> ds = [''''] then ''Research encountered an error''
                             else join_strs ''; '' ds))], None))
       \<and> (js_get msg ''subtype'' \<noteq> JStr ''success'' \<and> nullish (js_get msg ''errors'') \<longrightarrow>
            relay_msg msg = ([Error (JStr ''Research encountered an error'')], None))"
proof -
  from assms have obj: "truthy msg" "typeof_object msg"
    using js_get_type_obj by blast+
  have nonempty: "join_strs ''; '' ds = [] \<longleftrightarrow> ds = [] \<or> ds = ['''']"
    by (rule join_strs_empty) simp
  show ?thesis
    using assms obj nonempty
    by (cases "js_get msg ''errors''")
       (auto simp: relay_msg_def js_or_def array_join_strs)
qed

theorem final_result_events_witness:
  "relay_msg (JObj [(''type'', JStr ''result''), (''subtype'', JStr ''success''),
                    (''result'', JStr ''Try Memento and Primer.'')])
     = ([Result (JStr ''Try Memento and Primer.'')], None)
   \<and> relay_msg (JObj [(''type'', JStr ''result''), (''subtype'', JStr ''error_max_turns''),
                      (''errors'', JArr [JStr ''timeout'', JStr ''rate limited''])])
     = ([Error (JStr ''timeout; rate limited'')], None)
   \<and> relay_msg (JObj [(''type'', JStr ''result''), (''subtype'', JStr ''error_max_turns'')])
     = ([Error (JStr ''Research encountered an error'')], None)"
  using
    final_result_events
      [of "JObj [(''type'', JStr ''result''), (''subtype'', JStr ''success''),
                 (''result'', JStr ''Try Memento and Primer.'')]" "[]"]
    final_result_events
      [of "JObj [(''type'', JStr ''result''), (''subtype'', JStr ''error_max_turns''),
                 (''errors'', JArr [JStr ''timeout'', JStr ''rate limited''])]"
          "[''timeout'', ''rate limited'']"]
    final_result_events
      [of "JObj [(''type'', JStr ''result''), (''subtype'', JStr ''error_max_turns'')]" "[]"]
  by simp

text \<open>
  C5 as stated fails: an error sequence that is not empty, holding one empty description,
  joins to the empty text, and the event carries the fallback instead of that text.
\<close>

theorem final_result_fallback_counterexample:
  "relay_msg (JObj [(''type'', JStr ''result''), (''subtype'', JStr ''error_during_execution''),
                    (''errors'', JArr [JStr ''''])])
     = ([Error (JStr ''Research encountered an error'')], None)
   \<and> [JStr ''''] \<noteq> []
   \<and> array_join ''; '' [JStr ''''] = Inr ''''"
  by (simp add: relay_msg_def js_or_def array_join_def)

subsection \<open>Content blocks\<close>

lemma trim_replicate: "\<not> is_space c \<Longrightarrow> trim (replicate n c) = replicate n c"
  by (cases n)
     (simp_all add: trim_def dropWhile_eq_self_iff hd_rev last_replicate del: replicate.simps)

lemma assistant_content:
  assumes "js_get msg ''type'' = JStr ''assistant''"
    and "js_get (js_get msg ''message'') ''content'' = JArr bs"
  shows "relay_msg msg = relay_blocks bs"
proof -
  from assms(1) have "truthy msg" "typeof_object msg" using js_get_type_obj by blast+
  moreover from assms(2) have "\<not> nullish (js_get msg ''message'')"
    by (cases "js_get msg ''message''") auto
  ultimately show ?thesis using assms by (simp add: relay_msg_def opt_get_def)
qed

lemma relay_blocks_append:
  "\<forall>b \<in> set bs. snd (relay_block b) = None \<Longrightarrow>
     relay_blocks (bs @ cs) =
       (concat (map (\<lambda>b. fst (relay_block b)) bs) @ fst (relay_blocks cs),
        snd (relay_blocks cs))"
  by (induction bs) (auto split: prod.splits option.splits)

text \<open>
  C6. For a block of type \<^verbatim>\<open>text\<close> whose text is a string, the loop body sends a
  \<^verbatim>\<open>thinking\<close> event, carrying the trimmed text, if and only if the length of the trimmed
  text is strictly between 0 and 500; at a trimmed length of 500 or more it sends nothing.
  Inside an assistant message whose earlier blocks do not throw, this is what the block
  adds to the events of the message, at its place.
\<close>

theorem text_block_thinking:
  assumes "js_get block ''type'' = JStr ''text''" and "js_get block ''text'' = JStr s"
  shows "relay_block block =
           (if 0 < length (trim s) \<and> length (trim s) < 500 then [Thinking (JStr (trim s))]
            else [], None)
       \<and> ((\<exists>c. Thinking c \<in> set (fst (relay_block block)))
            \<longleftrightarrow> 0 < length (trim s) \<and> length (trim s) < 500)
       \<and> (500 \<le> length (trim s) \<longrightarrow> fst (relay_block block) = [])
       \<and> (js_get msg ''type'' = JStr ''assistant''
            \<and> js_get (js_get msg ''message'') ''content'' = JArr (before @ block # after)
            \<and> (\<forall>b \<in> set before. snd (relay_block b) = None) \<longrightarrow>
          fst (relay_msg msg) =
            concat (map (\<lambda>b. fst (relay_block b)) before)
            @ (if 0 < length (trim s) \<and> length (trim s) < 500 then [Thinking (JStr (trim s))]
               else [])
            @ fst (relay_blocks after))"
proof -
  from assms(1) have obj: "truthy block" "typeof_object block"
    using js_get_type_obj by blast+
  have eq: "relay_block block =
           (if 0 < length (trim s) \<and> length (trim s) < 500 then [Thinking (JStr (trim s))]
            else [], None)"
    using assms obj by (simp add: relay_block_def)
  have "fst (relay_msg msg) =
            concat (map (\<lambda>b. fst (relay_block b)) before)
            @ (if 0 < length (trim s) \<and> length (trim s) < 500 then [Thinking (JStr (trim s))]
               else [])
            @ fst (relay_blocks after)"
    if "js_get msg ''type'' = JStr ''assistant''"
      and "js_get (js_get msg ''message'') ''content'' = JArr (before @ block # after)"
      and "\<forall>b \<in> set before. snd (relay_block b) = None"
    using assistant_content [OF that(1,2)] relay_blocks_append [OF that(3), of "block # after"]
    by (simp add: eq split: prod.splits)
  then show ?thesis
    by (simp add: eq)
qed

theorem text_block_thinking_witness:
  "relay_block (JObj [(''type'', JStr ''text''), (''text'', JStr ''  Looking at reviews  '')])
     = ([Thinking (JStr ''Looking at reviews'')], None)
   \<and> relay_block (JObj [(''type'', JStr ''text''), (''text'', JStr (replicate 500 CHR ''a''))])
     = ([], None)
   \<and> relay_block (JObj [(''type'', JStr ''text''), (''text'', JStr (replicate 499 CHR ''a''))])
     = ([Thinking (JStr (replicate 499 CHR ''a''))], None)
   \<and> relay_block (JObj [(''type'', JStr ''text''), (''text'', JStr ''   '')]) = ([], None)
   \<and> fst (relay_msg (JObj [(''type'', JStr ''assistant''), (''message'', JObj [(''content'',
          JArr [JObj [(''type'', JStr ''tool_use''), (''name'', JStr ''WebSearch''),
                      (''input'', JObj [(''query'', JStr ''noir films'')])],
                JObj [(''type'', JStr ''text''), (''text'', JStr ''  Looking at reviews  '')],
                JObj [(''type'', JStr ''text''),
                      (''text'', JStr (replicate 500 CHR ''a''))]])])]))
     = [Search (JStr ''noir films''), Thinking (JStr ''Looking at reviews'')]"
proof -
  let ?short = "JObj [(''type'', JStr ''text''), (''text'', JStr ''  Looking at reviews  '')]"
  let ?long = "JObj [(''type'', JStr ''text''), (''text'', JStr (replicate 500 CHR ''a''))]"
  let ?search = "JObj [(''type'', JStr ''tool_use''), (''name'', JStr ''WebSearch''),
                      (''input'', JObj [(''query'', JStr ''noir films'')])]"
  let ?msg = "JObj [(''type'', JStr ''assistant''),
                    (''message'', JObj [(''content'', JArr [?search, ?short, ?long])])]"
  have a: "trim (replicate n CHR ''a'') = replicate n CHR ''a''" for n
    by (rule trim_replicate) (simp add: is_space_def)
  have b: "trim ''  Looking at reviews  '' = ''Looking at reviews''"
    by (simp add: trim_def is_space_def)
  have c: "trim ''   '' = []"
    by (simp add: trim_def is_space_def)
  have search: "relay_block ?search = ([Search (JStr ''noir films'')], None)"
    by (simp add: relay_block_def opt_get_def js_or_def)
  have long: "relay_block ?long = ([], None)"
    using text_block_thinking
      [where block = ?long and s = "replicate 500 CHR ''a''" and msg = JNull
         and before = "[]" and after = "[]"]
    by (simp add: a)
  have short_in_msg:
    "fst (relay_msg ?msg) = [Search (JStr ''noir films''), Thinking (JStr ''Looking at reviews'')]"
    using text_block_thinking
      [where block = ?short and s = "''  Looking at reviews  ''" and msg = ?msg
         and before = "[?search]" and after = "[?long]"]
      search long
    by (simp add: b)
  show ?thesis
    using
      text_block_thinking
        [where block = ?short and s = "''  Looking at reviews  ''" and msg = JNull
           and before = "[]" and after = "[]"]
      text_block_thinking
        [where block = "JObj [(''type'', JStr ''text''),
                              (''text'', JStr (replicate 499 CHR ''a''))]"
           and s = "replicate 499 CHR ''a''" and msg = JNull and before = "[]" and after = "[]"]
      text_block_thinking
        [where block = "JObj [(''type'', JStr ''text''), (''text'', JStr ''   '')]"
           and s = "''   ''" and msg = JNull and before = "[]" and after = "[]"]
      long short_in_msg
    by (simp add: a b c)
qed


lemma relay_blocks_throws:
  "snd (relay_blocks bs) \<noteq> None \<longleftrightarrow> (\<exists>b \<in> set bs. snd (relay_block b) \<noteq> None)"
  by (induction bs) (auto split: prod.splits option.splits)

lemma relay_block_throws:
  "snd (relay_block b) \<noteq> None \<longleftrightarrow>
     js_get b ''type'' = JStr ''text'' \<and> \<not> nullish (js_get b ''text'')
       \<and> (\<forall>s. js_get b ''text'' \<noteq> JStr s)"
proof (cases "js_get b ''type'' = JStr ''text''")
  case True
  then have "truthy b" "typeof_object b" using js_get_type_obj by blast+
  with True show ?thesis
    by (cases "js_get b ''text''") (auto simp: relay_block_def type_error_def)
next
  case False
  then show ?thesis by (auto simp: relay_block_def)
qed

lemma tool_use_block:
  assumes "js_get block ''type'' = JStr ''tool_use''"
  shows "relay_block block =
     (if js_get block ''name'' = JStr ''WebSearch'' then
        ([Search (if truthy (opt_get (js_get block ''input'') ''query'')
                  then opt_get (js_get block ''input'') ''query''
                  else if truthy (opt_get (js_get block ''input'') ''q'')
                  then opt_get (js_get block ''input'') ''q''
                  else JStr '''')], None)
      else if js_get block ''name'' = JStr ''WebFetch'' then
        ([Fetch (if truthy (opt_get (js_get block ''input'') ''url'')
                 then opt_get (js_get block ''input'') ''url'' else JStr '''')], None)
      else ([], None))"
proof -
  from assms have "truthy block" "typeof_object block" using js_get_type_obj by blast+
  with assms show ?thesis by (simp add: relay_block_def js_or_def)
qed



text \<open>
  C10. For a \<^verbatim>\<open>WebSearch\<close> block the query is chosen by falsiness: the input's
  \<^verbatim>\<open>query\<close> if it is truthy, otherwise its \<^verbatim>\<open>q\<close> if that is truthy, otherwise the
  empty string. So a \<^verbatim>\<open>query\<close> that is present but empty is passed over and a non-empty
  \<^verbatim>\<open>q\<close> is used.
\<close>

theorem search_query_falsy_fallback:
  assumes "js_get block ''type'' = JStr ''tool_use''"
    and "js_get block ''name'' = JStr ''WebSearch''"
  shows "relay_block block =
           ([Search (if truthy (opt_get (js_get block ''input'') ''query'')
                     then opt_get (js_get block ''input'') ''query''
                     else if truthy (opt_get (js_get block ''input'') ''q'')
                     then opt_get (js_get block ''input'') ''q''
                     else JStr '''')], None)
       \<and> (js_get (js_get block ''input'') ''query'' = JStr ''''
            \<and> js_get (js_get block ''input'') ''q'' = JStr (c # cs) \<longrightarrow>
          relay_block block = ([Search (JStr (c # cs))], None))"
proof -
  have "js_get v k = JStr t \<Longrightarrow> opt_get v k = JStr t" for v k t
    by (cases v) (auto simp: opt_get_def)
  then show ?thesis
    using tool_use_block [OF assms(1)] assms(2) by auto
qed

theorem search_query_falsy_fallback_witness:
  "relay_block (JObj [(''type'', JStr ''tool_use''), (''name'', JStr ''WebSearch''),
                      (''input'', JObj [(''query'', JStr ''''), (''q'', JStr ''noir films'')])])
     = ([Search (JStr ''noir films'')], None)"
  using search_query_falsy_fallback
    [of "JObj [(''type'', JStr ''tool_use''), (''name'', JStr ''WebSearch''),
               (''input'', JObj [(''query'', JStr ''''), (''q'', JStr ''noir films'')])]"
        "CHR ''n''" "''oir films''"]
  by (simp add: opt_get_def)

subsection \<open>When the loop body throws\<close>

lemma to_string_throws:
  "(\<exists>e. to_string v = Inl e) \<longleftrightarrow> unprintable v"
  "(\<exists>e. elements_to_strings xs = Inl e) \<longleftrightarrow> (\<exists>x \<in> set xs. unprintable x)"
proof (induction v and xs rule: to_string_elements_to_strings.induct)
  case (6 xs)
  then show ?case by (auto split: sum.splits)
next
  case (9 x xs)
  have "\<not> unprintable x" if "nullish x"
    using that by (cases x) auto
  with 9 show ?case
    by (cases "nullish x") (auto split: sum.splits)
qed auto

lemma array_join_throws:
  "(\<exists>e. array_join sep xs = Inl e) \<longleftrightarrow> (\<exists>x \<in> set xs. unprintable x)"
  using to_string_throws(2) [of xs]
  by (auto simp: array_join_def split: sum.splits)

lemma errors_join_throws:
  "(\<exists>e. errors_join v = Inl e) \<longleftrightarrow>
     (\<not> nullish v \<and> \<not> is_array v)
     \<or> (\<exists>xs. v = JArr xs \<and> (\<exists>x \<in> set xs. unprintable x))"
proof (cases v)
  case (JArr xs)
  then show ?thesis
    using array_join_throws [of "''; ''" xs]
    by (auto split: sum.splits)
qed auto

lemma iterate_content_throws:
  "truthy v \<Longrightarrow> snd (iterate_content v) \<noteq> None \<longleftrightarrow>
     (\<not> is_array v \<and> (\<forall>s. v \<noteq> JStr s))
     \<or> (\<exists>bs. v = JArr bs \<and> (\<exists>b \<in> set bs. snd (relay_block b) \<noteq> None))"
  using relay_blocks_throws by (cases v) auto

lemma opt_get_truthy: "truthy (opt_get v k) \<Longrightarrow> opt_get v k = js_get v k"
  by (auto simp: opt_get_def)

lemma relay_msg_throws:
  "snd (relay_msg msg) \<noteq> None \<longleftrightarrow>
       (js_get msg ''type'' = JStr ''result'' \<and> js_get msg ''subtype'' \<noteq> JStr ''success''
          \<and> (\<exists>e. errors_join (js_get msg ''errors'') = Inl e))
     \<or> (js_get msg ''type'' = JStr ''assistant''
          \<and> truthy (opt_get (js_get msg ''message'') ''content'')
          \<and> snd (iterate_content (js_get (js_get msg ''message'') ''content'')) \<noteq> None)"
proof (cases "truthy msg \<and> typeof_object msg")
  case False
  then have "relay_msg msg = ([], None)" by (auto simp: relay_msg_def)
  moreover from False have "js_get msg ''type'' = JUndefined" by (cases msg) auto
  ultimately show ?thesis by simp
next
  case True
  then show ?thesis
    by (auto simp: relay_msg_def split: sum.splits)
qed

text \<open>
  C3 (as amended). The loop body sends nothing and does not throw for a message that is not
  an object and for an object of an unrecognised type. It throws (a \<^verbatim>\<open>TypeError\<close>) on
  exactly four shapes of message: a \<^verbatim>\<open>result\<close> that is not a success whose \<^verbatim>\<open>errors\<close>
  field is present and not an array; a \<^verbatim>\<open>result\<close> that is not a success whose
  \<^verbatim>\<open>errors\<close> array holds an element that cannot be converted to a string (an object
  with an own property \<^verbatim>\<open>toString\<close>, or an array holding one); an \<^verbatim>\<open>assistant\<close>
  message whose content is truthy and neither an array nor a string; an \<^verbatim>\<open>assistant\<close>
  message whose content array holds a \<^verbatim>\<open>text\<close> block whose text is present and not a
  string. On every other message it does not throw.
\<close>

theorem relay_msg_total_except:
  "(\<not> truthy msg \<or> \<not> typeof_object msg \<longrightarrow> relay_msg msg = ([], None))
   \<and> (js_get msg ''type'' \<noteq> JStr ''result'' \<and> js_get msg ''type'' \<noteq> JStr ''assistant''
        \<and> js_get msg ''type'' \<noteq> JStr ''tool_use_summary''
        \<and> js_get msg ''type'' \<noteq> JStr ''tool_progress'' \<longrightarrow> relay_msg msg = ([], None))
   \<and> (snd (relay_msg msg) \<noteq> None \<longleftrightarrow>
         (js_get msg ''type'' = JStr ''result'' \<and> js_get msg ''subtype'' \<noteq> JStr ''success''
            \<and> \<not> nullish (js_get msg ''errors'') \<and> \<not> is_array (js_get msg ''errors''))
       \<or> (js_get msg ''type'' = JStr ''result'' \<and> js_get msg ''subtype'' \<noteq> JStr ''success''
            \<and> (\<exists>xs. js_get msg ''errors'' = JArr xs \<and> (\<exists>x \<in> set xs. unprintable x)))
       \<or> (js_get msg ''type'' = JStr ''assistant''
            \<and> truthy (opt_get (js_get msg ''message'') ''content'')
            \<and> \<not> is_array (opt_get (js_get msg ''message'') ''content'')
            \<and> (\<forall>s. opt_get (js_get msg ''message'') ''content'' \<noteq> JStr s))
       \<or> (js_get msg ''type'' = JStr ''assistant''
            \<and> (\<exists>bs. opt_get (js_get msg ''message'') ''content'' = JArr bs
                  \<and> (\<exists>b \<in> set bs. js_get b ''type'' = JStr ''text''
                         \<and> \<not> nullish (js_get b ''text'')
                         \<and> (\<forall>s. js_get b ''text'' \<noteq> JStr s)))))"
proof (intro conjI)
  show "\<not> truthy msg \<or> \<not> typeof_object msg \<longrightarrow> relay_msg msg = ([], None)"
    by (auto simp: relay_msg_def)
  show "js_get msg ''type'' \<noteq> JStr ''result'' \<and> js_get msg ''type'' \<noteq> JStr ''assistant''
        \<and> js_get msg ''type'' \<noteq> JStr ''tool_use_summary''
        \<and> js_get msg ''type'' \<noteq> JStr ''tool_progress'' \<longrightarrow> relay_msg msg = ([], None)"
    by (auto simp: relay_msg_def)
  let ?c = "opt_get (js_get msg ''message'') ''content''"
  have c: "truthy ?c \<Longrightarrow> js_get (js_get msg ''message'') ''content'' = ?c"
    using opt_get_truthy by simp
  show "snd (relay_msg msg) \<noteq> None \<longleftrightarrow>
         (js_get msg ''type'' = JStr ''result'' \<and> js_get msg ''subtype'' \<noteq> JStr ''success''
            \<and> \<not> nullish (js_get msg ''errors'') \<and> \<not> is_array (js_get msg ''errors''))
       \<or> (js_get msg ''type'' = JStr ''result'' \<and> js_get msg ''subtype'' \<noteq> JStr ''success''
            \<and> (\<exists>xs. js_get msg ''errors'' = JArr xs \<and> (\<exists>x \<in> set xs. unprintable x)))
       \<or> (js_get msg ''type'' = JStr ''assistant''
            \<and> truthy ?c \<and> \<not> is_array ?c \<and> (\<forall>s. ?c \<noteq> JStr s))
       \<or> (js_get msg ''type'' = JStr ''assistant''
            \<and> (\<exists>bs. ?c = JArr bs
                  \<and> (\<exists>b \<in> set bs. js_get b ''type'' = JStr ''text''
                         \<and> \<not> nullish (js_get b ''text'')
                         \<and> (\<forall>s. js_get b ''text'' \<noteq> JStr s))))"
  proof (cases "truthy ?c")
    case True
    then show ?thesis
      unfolding relay_msg_throws errors_join_throws
      using c iterate_content_throws [of ?c] relay_block_throws
      by simp blast
  next
    case False
    then have "?c \<noteq> JArr bs" for bs by auto
    with False show ?thesis
      unfolding relay_msg_throws errors_join_throws by simp blast
  qed
qed

theorem relay_msg_total_except_witness:
  "relay_msg (JNum False ''7'') = ([], None)
   \<and> relay_msg (JObj [(''type'', JStr ''system''), (''subtype'', JStr ''init'')]) = ([], None)
   \<and> snd (relay_msg (JObj [(''type'', JStr ''result''), (''subtype'', JStr ''error_max_turns''),
                           (''errors'', JNum False ''3'')])) \<noteq> None
   \<and> snd (relay_msg (JObj [(''type'', JStr ''result''), (''subtype'', JStr ''error_max_turns''),
                           (''errors'', JArr [JStr ''timeout'',
                                             JObj [(''toString'', JNum False ''1'')]])])) \<noteq> None
   \<and> snd (relay_msg (JObj [(''type'', JStr ''result''), (''subtype'', JStr ''error_max_turns''),
                           (''errors'', JArr [JStr ''timeout'', JNull, JNum False ''429'',
                                             JObj [(''code'', JStr ''E1'')]])])) = None
   \<and> snd (relay_msg (JObj [(''type'', JStr ''assistant''),
                           (''message'', JObj [(''content'', JArr
                              [JObj [(''type'', JStr ''text''), (''text'', JStr ''ok'')],
                               JNull, JStr ''stray'',
                               JObj [(''type'', JStr ''text'')]])])])) = None"
  using
    relay_msg_total_except [of "JNum False ''7''"]
    relay_msg_total_except [of "JObj [(''type'', JStr ''system''), (''subtype'', JStr ''init'')]"]
    relay_msg_total_except
      [of "JObj [(''type'', JStr ''result''), (''subtype'', JStr ''error_max_turns''),
                 (''errors'', JNum False ''3'')]"]
    relay_msg_total_except
      [of "JObj [(''type'', JStr ''result''), (''subtype'', JStr ''error_max_turns''),
                 (''errors'', JArr [JStr ''timeout'',
                                   JObj [(''toString'', JNum False ''1'')]])]"]
    relay_msg_total_except
      [of "JObj [(''type'', JStr ''result''), (''subtype'', JStr ''error_max_turns''),
                 (''errors'', JArr [JStr ''timeout'', JNull, JNum False ''429'',
                                   JObj [(''code'', JStr ''E1'')]])]"]
    relay_msg_total_except
      [of "JObj [(''type'', JStr ''assistant''),
                 (''message'', JObj [(''content'', JArr
                    [JObj [(''type'', JStr ''text''), (''text'', JStr ''ok'')],
                     JNull, JStr ''stray'',
                     JObj [(''type'', JStr ''text'')]])])]"]
  by (simp add: opt_get_def)

text \<open>
  C3 as stated fails: on a failure message whose \<^verbatim>\<open>errors\<close> field is a string, on one
  whose \<^verbatim>\<open>errors\<close> array holds an object with an own property \<^verbatim>\<open>toString\<close>, and on an
  assistant message holding a text block whose text is a number, the loop body throws.
\<close>

theorem relay_msg_throws_counterexample:
  "relay_msg (JObj [(''type'', JStr ''result''), (''subtype'', JStr ''error_during_execution''),
                    (''errors'', JStr ''boom'')])
     = ([], Some (type_error ''msg.errors?.join is not a function''))
   \<and> relay_msg (JObj [(''type'', JStr ''result''), (''subtype'', JStr ''error_during_execution''),
                      (''errors'', JArr [JObj [(''toString'', JNum False ''1'')]])])
     = ([], Some (type_error ''Cannot convert object to primitive value''))
   \<and> relay_msg (JObj [(''type'', JStr ''assistant''),
                      (''message'', JObj [(''content'', JArr
                         [JObj [(''type'', JStr ''text''), (''text'', JNum False ''5'')]])])])
     = ([], Some (type_error ''block.text?.trim is not a function''))"
  by (simp add: relay_msg_def relay_block_def opt_get_def array_join_def)

section \<open>Properties of the relay\<close>

subsection \<open>The events handed to \<^verbatim>\<open>send\<close>\<close>

lemma data_events_append: "data_events (xs @ ys) = data_events xs @ data_events ys"
  by (induction xs rule: data_events.induct) auto

lemma sent_send: "sent (send conn e s) = sent s @ [e]"
  by (simp add: sent_def send_def res_write_def data_events_append)

lemma sent_sends: "sent (sends conn es s) = sent s @ es"
  by (induction es arbitrary: s) (auto simp: sent_send)

lemma sent_heartbeat_fire: "sent (heartbeat_fire conn s) = sent s"
  by (simp add: sent_def heartbeat_fire_def res_write_def clearInterval_def data_events_append)

lemma sent_heartbeat_fires: "sent (heartbeat_fires conn n s) = sent s"
  by (induction n arbitrary: s) (auto simp: sent_heartbeat_fire)

lemma relay_loop_sent:
  "sent (fst (relay_loop conn ws en s)) = sent s @ fst (relay_msgs (yielded ws))"
  by (induction conn ws en s rule: relay_loop.induct)
     (auto simp: sent_sends sent_heartbeat_fire split: prod.splits option.splits)

lemma relay_loop_thrown: "snd (relay_loop conn ws en s) = thrown ws en"
  by (induction conn ws en s rule: relay_loop.induct)
     (auto simp: thrown_def split: prod.splits option.splits)



lemma sent_streaming_begun: "sent streaming_begun = []"
  by (simp add: sent_def streaming_begun_def setInterval_def)

lemma sent_finally: "sent (finally_block s) = sent s"
  by (simp add: sent_def finally_block_def clearInterval_def)

lemma sent_catch: "sent (fst (catch_block conn err s)) = sent s @ caught err"
  by (simp add: catch_block_def caught_def sent_send)

lemma try_block_imported:
  assumes "run favoriteMovies (js_or moviePreferences (JObj [])) = (ws, en)"
  shows "snd (try_block conn pre (Imported run) favoriteMovies moviePreferences) = thrown ws en
       \<and> sent (fst (try_block conn pre (Imported run) favoriteMovies moviePreferences)) =
           Start (JStr ''Starting deep research into your movie taste...'')
             # fst (relay_msgs (yielded ws))
             @ (case thrown ws en of None \<Rightarrow> [Done] | Some err \<Rightarrow> [])"
proof -
  define s2 where "s2 = send conn
                      (Start (JStr ''Starting deep research into your movie taste...''))
                      (heartbeat_fires conn pre streaming_begun)"
  obtain s3 r where loop: "relay_loop conn ws en s2 = (s3, r)"
    by (cases "relay_loop conn ws en s2") auto
  have r: "r = thrown ws en"
    using relay_loop_thrown [of conn ws en s2] loop by simp
  have "sent s2 = [Start (JStr ''Starting deep research into your movie taste...'')]"
    by (simp add: s2_def sent_send sent_heartbeat_fires sent_streaming_begun)
  then have s3: "sent s3 = Start (JStr ''Starting deep research into your movie taste...'')
             # fst (relay_msgs (yielded ws))"
    using relay_loop_sent [of conn ws en s2] loop by simp
  have t: "try_block conn pre (Imported run) favoriteMovies moviePreferences =
             (case r of Some e \<Rightarrow> (s3, Some e) | None \<Rightarrow> (send conn Done s3, None))"
    using assms loop by (simp add: try_block_def s2_def split: option.splits)
  show ?thesis
  proof (cases r)
    case None
    with r have "thrown ws en = None" by simp
    with None s3 show ?thesis unfolding t by (simp add: sent_send)
  next
    case (Some e)
    with r have "thrown ws en = Some e" by simp
    with Some s3 show ?thesis unfolding t by simp
  qed
qed

lemma stream_fst:
  "fst (stream conn pre agent favoriteMovies moviePreferences) =
     (case snd (try_block conn pre agent favoriteMovies moviePreferences) of
        None \<Rightarrow> finally_block (fst (try_block conn pre agent favoriteMovies moviePreferences))
      | Some err \<Rightarrow>
          finally_block
            (fst (catch_block conn err
                    (fst (try_block conn pre agent favoriteMovies moviePreferences)))))"
  by (simp add: stream_def split: prod.splits option.splits)

lemma stream_sent_imported:
  assumes "run favoriteMovies (js_or moviePreferences (JObj [])) = (ws, en)"
  shows "sent (fst (stream conn pre (Imported run) favoriteMovies moviePreferences)) =
           Start (JStr ''Starting deep research into your movie taste...'')
             # fst (relay_msgs (yielded ws))
             @ (case thrown ws en of None \<Rightarrow> [Done] | Some err \<Rightarrow> caught err)"
  using try_block_imported [of run favoriteMovies moviePreferences ws en conn pre] assms
  by (cases "thrown ws en") (simp_all add: stream_fst sent_finally sent_catch)

lemma stream_sent_import_fails:
  "sent (fst (stream conn pre (Import_fails err) favoriteMovies moviePreferences)) = caught err"
  by (simp add: stream_fst try_block_def sent_finally sent_catch sent_heartbeat_fires
                sent_streaming_begun)

lemma stream_rejected:
  "snd (stream conn pre agent favoriteMovies moviePreferences) =
     (case snd (try_block conn pre agent favoriteMovies moviePreferences) of
        None \<Rightarrow> None
      | Some err \<Rightarrow> if nullish err then Some (type_error ''Cannot read properties of undefined'')
                     else None)"
  by (simp add: stream_def catch_block_def split: prod.splits option.splits)

lemma relay_block_events:
  "e \<in> set (fst (relay_block b)) \<Longrightarrow> \<not> is_final e \<and> e \<noteq> Done"
  by (auto simp: relay_block_def split: if_splits sum.splits jsval.splits)

lemma relay_blocks_events:
  "e \<in> set (fst (relay_blocks bs)) \<Longrightarrow> \<not> is_final e \<and> e \<noteq> Done"
proof (induction bs)
  case Nil
  then show ?case by simp
next
  case (Cons b bs)
  then show ?case
    using relay_block_events [of e b]
    by (auto split: prod.splits option.splits)
qed

lemma iterate_content_events:
  "e \<in> set (fst (iterate_content v)) \<Longrightarrow> \<not> is_final e \<and> e \<noteq> Done"
  using relay_blocks_events by (cases v) auto

lemma relay_msg_not_done: "Done \<notin> set (fst (relay_msg m))"
  using iterate_content_events [of Done]
  by (auto simp: relay_msg_def split: if_splits sum.splits)

lemma relay_msg_final_count:
  assumes "snd (relay_msg m) = None"
  shows "length (filter is_final (fst (relay_msg m))) =
           (if js_get m ''type'' = JStr ''result'' then 1 else 0)"
proof (cases "js_get m ''type'' = JStr ''result''")
  case True
  then have "truthy m" "typeof_object m" using js_get_type_obj by blast+
  with True assms show ?thesis
    by (auto simp: relay_msg_def split: sum.splits if_splits)
next
  case False
  have "filter is_final (fst (iterate_content v)) = []" for v
    using iterate_content_events [of _ v] by (auto simp: filter_empty_conv)
  with False show ?thesis
    by (auto simp: relay_msg_def)
qed

lemma relay_msgs_clean:
  "\<forall>m \<in> set ms. snd (relay_msg m) = None \<Longrightarrow>
     relay_msgs ms = (concat (map (\<lambda>m. fst (relay_msg m)) ms), None)"
  by (induction ms) (auto split: prod.splits option.splits)

lemma relay_msgs_not_done: "Done \<notin> set (fst (relay_msgs ms))"
proof (induction ms)
  case Nil
  then show ?case by simp
next
  case (Cons m ms)
  then show ?case
    using relay_msg_not_done [of m]
    by (auto split: prod.splits option.splits)
qed

lemma final_count_clean:
  "\<forall>m \<in> set ms. snd (relay_msg m) = None \<Longrightarrow>
     length (filter is_final (concat (map (\<lambda>m. fst (relay_msg m)) ms))) =
       length (filter (\<lambda>m. js_get m ''type'' = JStr ''result'') ms)"
  by (induction ms) (auto simp: relay_msg_final_count)

lemma thrown_clean:
  "\<forall>m \<in> set (yielded ws). snd (relay_msg m) = None \<Longrightarrow>
     thrown ws en = (case en of Exhausted \<Rightarrow> None | Raised e \<Rightarrow> Some e)"
  by (simp add: thrown_def relay_msgs_clean)

lemma final_result_single:
  assumes "js_get m ''type'' = JStr ''result''" and "snd (relay_msg m) = None"
  shows "(\<exists>c. fst (relay_msg m) = [Result c]) \<or> (\<exists>e. fst (relay_msg m) = [Error e])"
proof -
  from assms(1) have "truthy m" "typeof_object m" using js_get_type_obj by blast+
  with assms show ?thesis
    by (auto simp: relay_msg_def split: sum.splits if_splits)
qed

lemma caught_not_done: "Done \<notin> set (caught err)"
  by (simp add: caught_def)

lemmas relay_eval =
  relay_msg_def relay_block_def opt_get_def js_or_def thrown_def array_join_def caught_def

subsection \<open>How a stream ends\<close>

lemma stream_ended: "ended (fst (stream conn pre agent favoriteMovies moviePreferences))"
  by (simp add: stream_fst finally_block_def split: option.splits)

text \<open>
  C1, where the handler departs from it. When an exception leaves the loop (the session
  throws, or the loop body does) with a value other than \<^verbatim>\<open>null\<close> and \<^verbatim>\<open>undefined\<close>,
  the events handed to \<^verbatim>\<open>send\<close> are \<^verbatim>\<open>start\<close>, the events relayed before the throw,
  and one \<^verbatim>\<open>error\<close> event with the thrown message (or the fallback text); the response
  is then ended and the handler returns normally, but no \<^verbatim>\<open>done\<close> event is sent: the
  \<^verbatim>\<open>send\<close> of \<^verbatim>\<open>done\<close> is the last statement of the \<^verbatim>\<open>try\<close> block and is skipped.
\<close>

theorem exception_skips_done:
  assumes "run favoriteMovies (js_or moviePreferences (JObj [])) = (ws, en)"
    and "thrown ws en = Some err"
    and "\<not> nullish err"
  shows
    "sent (fst (stream conn pre (Imported run) favoriteMovies moviePreferences)) =
       Start (JStr ''Starting deep research into your movie taste...'')
         # fst (relay_msgs (yielded ws))
         @ [Error (js_or (js_get err ''message'') (JStr ''An unexpected error occurred''))]
     \<and> Done \<notin> set (sent (fst (stream conn pre (Imported run) favoriteMovies
                                  moviePreferences)))
     \<and> ended (fst (stream conn pre (Imported run) favoriteMovies moviePreferences))
     \<and> snd (stream conn pre (Imported run) favoriteMovies moviePreferences) = None"
proof -
  have eq: "sent (fst (stream conn pre (Imported run) favoriteMovies moviePreferences)) =
       Start (JStr ''Starting deep research into your movie taste...'')
         # fst (relay_msgs (yielded ws))
         @ [Error (js_or (js_get err ''message'') (JStr ''An unexpected error occurred''))]"
    using stream_sent_imported [of run favoriteMovies moviePreferences ws en conn pre,
                                OF assms(1)] assms(2,3)
    by (simp add: caught_def)
  have "Done \<notin> set (sent (fst (stream conn pre (Imported run) favoriteMovies
                                  moviePreferences)))"
    unfolding eq using relay_msgs_not_done [of "yielded ws"] by simp
  moreover
  have "snd (stream conn pre (Imported run) favoriteMovies moviePreferences) = None"
    using try_block_imported [of run favoriteMovies moviePreferences ws en conn pre,
                              OF assms(1)] assms(2,3)
    by (simp add: stream_rejected)
  ultimately show ?thesis
    using eq stream_ended by simp
qed

theorem exception_skips_done_witness:
  "(let s = fst (stream (\<lambda>n. True) 0
           (Imported (\<lambda>favs prefs.
              ([Yield (JObj [(''type'', JStr ''assistant''), (''message'', JObj [(''content'',
                   JArr [JObj [(''type'', JStr ''tool_use''), (''name'', JStr ''WebSearch''),
                               (''input'', JObj [(''query'', JStr ''Inception reviews'')])]])])])],
               Raised (JObj [(''message'', JStr ''socket hang up'')]))))
           (JArr [JStr ''Inception'']) (JObj []))
    in sent s = [Start (JStr ''Starting deep research into your movie taste...''),
                 Search (JStr ''Inception reviews''), Error (JStr ''socket hang up'')]
       \<and> Done \<notin> set (sent s) \<and> ended s)"
proof -
  let ?search = "JObj [(''type'', JStr ''assistant''), (''message'', JObj [(''content'',
                   JArr [JObj [(''type'', JStr ''tool_use''), (''name'', JStr ''WebSearch''),
                               (''input'', JObj [(''query'', JStr ''Inception reviews'')])]])])]"
  let ?hang = "JObj [(''message'', JStr ''socket hang up'')]"
  show ?thesis
    using
      exception_skips_done
        [where run = "\<lambda>favs prefs. ([Yield ?search], Raised ?hang)"
           and favoriteMovies = "JArr [JStr ''Inception'']" and moviePreferences = "JObj []"
           and ws = "[Yield ?search]" and en = "Raised ?hang"
           and err = ?hang and conn = "\<lambda>n. True" and pre = 0]
    by (simp add: relay_eval Let_def)
qed

text \<open>
  C9. The loop goes on after a message of type \<^verbatim>\<open>result\<close>: with the session exhausted and
  no throw, the events of the messages that come after it stand between its
  \<^verbatim>\<open>result\<close> or \<^verbatim>\<open>error\<close> event and \<^verbatim>\<open>done\<close>; every message of type \<^verbatim>\<open>result\<close>
  accounts for one such event; and \<^verbatim>\<open>done\<close> comes last, after the events of all messages.
\<close>

theorem relay_continues_after_final_result:
  assumes "run favoriteMovies (js_or moviePreferences (JObj [])) = (ws, Exhausted)"
    and "yielded ws = before @ final # after"
    and "js_get final ''type'' = JStr ''result''"
    and "\<forall>m \<in> set (yielded ws). snd (relay_msg m) = None"
  shows
    "sent (fst (stream conn pre (Imported run) favoriteMovies moviePreferences)) =
       Start (JStr ''Starting deep research into your movie taste...'')
         # concat (map (\<lambda>m. fst (relay_msg m)) before)
         @ fst (relay_msg final)
         @ concat (map (\<lambda>m. fst (relay_msg m)) after)
         @ [Done]
     \<and> ((\<exists>c. fst (relay_msg final) = [Result c]) \<or> (\<exists>e. fst (relay_msg final) = [Error e]))
     \<and> Done \<notin> set (concat (map (\<lambda>m. fst (relay_msg m)) (yielded ws)))
     \<and> length (filter is_final
                 (sent (fst (stream conn pre (Imported run) favoriteMovies moviePreferences)))) =
         length (filter (\<lambda>m. js_get m ''type'' = JStr ''result'') (yielded ws))"
proof -
  have msgs: "relay_msgs (yielded ws) =
                (concat (map (\<lambda>m. fst (relay_msg m)) (yielded ws)), None)"
    using relay_msgs_clean assms(4) by blast
  have "thrown ws Exhausted = None"
    using thrown_clean [of ws Exhausted] assms(4) by simp
  with msgs
    stream_sent_imported [of run favoriteMovies moviePreferences ws Exhausted conn pre,
                          OF assms(1)]
  have sent: "sent (fst (stream conn pre (Imported run) favoriteMovies moviePreferences)) =
          Start (JStr ''Starting deep research into your movie taste...'')
            # concat (map (\<lambda>m. fst (relay_msg m)) (yielded ws)) @ [Done]"
    by simp
  have one: "(\<exists>c. fst (relay_msg final) = [Result c]) \<or> (\<exists>e. fst (relay_msg final) = [Error e])"
    using final_result_single [OF assms(3)] assms(2,4) by simp
  have nodone: "Done \<notin> set (concat (map (\<lambda>m. fst (relay_msg m)) (yielded ws)))"
    using msgs relay_msgs_not_done [of "yielded ws"] by simp
  have count: "length (filter is_final (concat (map (\<lambda>m. fst (relay_msg m)) (yielded ws)))) =
            length (filter (\<lambda>m. js_get m ''type'' = JStr ''result'') (yielded ws))"
    using final_count_clean assms(4) by blast
  show ?thesis
    using one nodone count unfolding sent by (simp add: assms(2))
qed

theorem relay_continues_after_final_result_witness:
  "sent (fst (stream (\<lambda>n. True) 0
           (Imported (\<lambda>favs prefs.
              ([Yield (JObj [(''type'', JStr ''result''), (''subtype'', JStr ''success''),
                             (''result'', JStr ''Try Memento and Primer.'')]),
                Tick,
                Yield (JObj [(''type'', JStr ''tool_use_summary''),
                             (''summary'', JStr ''Read 3 pages'')]),
                Yield (JObj [(''type'', JStr ''result''), (''subtype'', JStr ''error_max_turns''),
                             (''errors'', JArr [JStr ''timeout'', JStr ''rate limited''])])],
               Exhausted)))
           (JArr [JStr ''Inception'']) (JObj [])))
     = [Start (JStr ''Starting deep research into your movie taste...''),
        Result (JStr ''Try Memento and Primer.''), Summary (JStr ''Read 3 pages''),
        Error (JStr ''timeout; rate limited''), Done]"
proof -
  let ?ok = "JObj [(''type'', JStr ''result''), (''subtype'', JStr ''success''),
                             (''result'', JStr ''Try Memento and Primer.'')]"
  let ?summary = "JObj [(''type'', JStr ''tool_use_summary''),
                             (''summary'', JStr ''Read 3 pages'')]"
  let ?fail = "JObj [(''type'', JStr ''result''), (''subtype'', JStr ''error_max_turns''),
                             (''errors'', JArr [JStr ''timeout'', JStr ''rate limited''])]"
  show ?thesis
    using
      relay_continues_after_final_result
        [where run = "\<lambda>favs prefs. ([Yield ?ok, Tick, Yield ?summary, Yield ?fail], Exhausted)"
           and favoriteMovies = "JArr [JStr ''Inception'']" and moviePreferences = "JObj []"
           and ws = "[Yield ?ok, Tick, Yield ?summary, Yield ?fail]"
           and before = "[]" and final = ?ok and after = "[?summary, ?fail]"
           and conn = "\<lambda>n. True" and pre = 0]
    by (simp add: relay_eval)
qed

subsection \<open>The keep-alive timer\<close>





















lemmas stream_eval =
  stream_def try_block_def catch_block_def finally_block_def streaming_begun_def
  send_def res_write_def heartbeat_fire_def setInterval_def clearInterval_def




subsection \<open>Failing writes\<close>

lemma log_inv_write: "log_inv conn s \<Longrightarrow> log_inv conn (snd (res_write conn f s))"
  by (simp add: log_inv_def res_write_def)

lemma log_inv_send: "log_inv conn s \<Longrightarrow> log_inv conn (send conn e s)"
  by (simp add: log_inv_def send_def res_write_def)

lemma log_inv_sends: "log_inv conn s \<Longrightarrow> log_inv conn (sends conn es s)"
  by (induction es arbitrary: s) (auto simp: log_inv_send)

lemma log_inv_fire: "log_inv conn s \<Longrightarrow> log_inv conn (heartbeat_fire conn s)"
  by (simp add: log_inv_def heartbeat_fire_def res_write_def clearInterval_def)

lemma log_inv_fires: "log_inv conn s \<Longrightarrow> log_inv conn (heartbeat_fires conn n s)"
  by (induction n arbitrary: s) (auto simp: log_inv_fire)

lemma log_inv_loop: "log_inv conn s \<Longrightarrow> log_inv conn (fst (relay_loop conn ws en s))"
  by (induction conn ws en s rule: relay_loop.induct)
     (auto simp: log_inv_sends log_inv_fire split: prod.splits option.splits)

lemma log_inv_catch: "log_inv conn s \<Longrightarrow> log_inv conn (fst (catch_block conn err s))"
  by (simp add: catch_block_def log_inv_send)

lemma log_inv_finally: "log_inv conn s \<Longrightarrow> log_inv conn (finally_block s)"
  by (simp add: log_inv_def finally_block_def clearInterval_def)

lemma log_inv_begun: "log_inv conn streaming_begun"
  by (simp add: log_inv_def streaming_begun_def setInterval_def)

lemma log_inv_try:
  "log_inv conn (fst (try_block conn pre agent favoriteMovies moviePreferences))"
proof (cases agent)
  case (Import_fails e)
  then show ?thesis
    by (simp add: try_block_def log_inv_fires log_inv_begun)
next
  case (Imported run)
  obtain ws en where run: "run favoriteMovies (js_or moviePreferences (JObj [])) = (ws, en)"
    by (cases "run favoriteMovies (js_or moviePreferences (JObj []))") auto
  define s2 where "s2 = send conn
                      (Start (JStr ''Starting deep research into your movie taste...''))
                      (heartbeat_fires conn pre streaming_begun)"
  have s2: "log_inv conn s2"
    by (simp add: s2_def log_inv_send log_inv_fires log_inv_begun)
  then have s3: "log_inv conn (fst (relay_loop conn ws en s2))"
    by (rule log_inv_loop)
  show ?thesis
    using Imported run s3
    by (cases "relay_loop conn ws en s2")
       (auto simp: try_block_def s2_def log_inv_send split: option.splits)
qed

lemma log_inv_stream:
  "log_inv conn (fst (stream conn pre agent favoriteMovies moviePreferences))"
  using log_inv_try [of conn pre agent favoriteMovies moviePreferences]
  by (cases "snd (try_block conn pre agent favoriteMovies moviePreferences)")
     (simp_all add: stream_fst log_inv_finally log_inv_catch)

lemma written_closed:
  assumes "log_inv conn s" and "\<forall>n \<ge> k. \<not> conn n"
  shows "written s = map fst (filter snd (take k (calls s)))"
proof -
  have "\<not> snd c" if "c \<in> set (drop k (calls s))" for c
  proof -
    from that obtain i where i: "i < length (calls s) - k" "c = calls s ! (k + i)"
      by (auto simp: in_set_conv_nth)
    then have "k + i < length (calls s)" by simp
    then have "snd (calls s ! (k + i)) = conn (k + i)"
      using assms(1) unfolding log_inv_def
      by (metis add_0 length_map nth_map nth_upt)
    with assms(2) i show ?thesis by simp
  qed
  then have "filter snd (drop k (calls s)) = []"
    by (simp add: filter_empty_conv)
  then have "filter snd (calls s) = filter snd (take k (calls s))"
    by (metis append_Nil2 append_take_drop_id filter_append)
  then show ?thesis by (simp add: written_def)
qed

lemma try_block_thrown_conn:
  "snd (try_block conn pre agent favoriteMovies moviePreferences) =
     snd (try_block conn' pre' agent favoriteMovies moviePreferences)"
proof (cases agent)
  case (Import_fails e)
  then show ?thesis by (simp add: try_block_def)
next
  case (Imported run)
  obtain ws en where run: "run favoriteMovies (js_or moviePreferences (JObj [])) = (ws, en)"
    by (cases "run favoriteMovies (js_or moviePreferences (JObj []))") auto
  show ?thesis
    using try_block_imported [of run favoriteMovies moviePreferences ws en conn pre, OF run]
      try_block_imported [of run favoriteMovies moviePreferences ws en conn' pre', OF run]
    by (simp add: Imported)
qed

lemma stream_sent_conn:
  "sent (fst (stream conn pre agent favoriteMovies moviePreferences)) =
     sent (fst (stream conn' pre' agent favoriteMovies moviePreferences))"
proof (cases agent)
  case (Import_fails e)
  then show ?thesis by (simp add: stream_sent_import_fails)
next
  case (Imported run)
  obtain ws en where run: "run favoriteMovies (js_or moviePreferences (JObj [])) = (ws, en)"
    by (cases "run favoriteMovies (js_or moviePreferences (JObj []))") auto
  show ?thesis
    using stream_sent_imported [of run favoriteMovies moviePreferences ws en conn pre, OF run]
      stream_sent_imported [of run favoriteMovies moviePreferences ws en conn' pre', OF run]
    by (simp add: Imported)
qed

text \<open>
  C4 (as amended). A failing write is swallowed: the events handed to \<^verbatim>\<open>send\<close> and the
  way the handler ends are those of a run on a connection where every write succeeds, so
  the session is consumed to its end and a write is still attempted for every later
  event. No frame is written from the point on from which the connection fails every
  write.
\<close>

theorem write_failure_swallowed:
  "sent (fst (stream conn pre agent favoriteMovies moviePreferences)) =
     sent (fst (stream (\<lambda>n. True) pre agent favoriteMovies moviePreferences))
   \<and> snd (stream conn pre agent favoriteMovies moviePreferences) =
       snd (stream (\<lambda>n. True) pre agent favoriteMovies moviePreferences)
   \<and> ((\<forall>n \<ge> k. \<not> conn n) \<longrightarrow>
        written (fst (stream conn pre agent favoriteMovies moviePreferences)) =
          map fst (filter snd
            (take k (calls (fst (stream conn pre agent favoriteMovies moviePreferences))))))"
  using stream_sent_conn [of conn pre agent favoriteMovies moviePreferences "\<lambda>n. True" pre]
    try_block_thrown_conn [of conn pre agent favoriteMovies moviePreferences "\<lambda>n. True" pre]
    written_closed
      [where conn = conn and k = k
         and s = "fst (stream conn pre agent favoriteMovies moviePreferences)",
       OF log_inv_stream]
  by (simp add: stream_rejected)

theorem write_failure_swallowed_witness:
  "written (fst (stream (\<lambda>n. n < 1) 0
           (Imported (\<lambda>favs prefs.
              ([Yield (JObj [(''type'', JStr ''result''), (''subtype'', JStr ''success''),
                             (''result'', JStr ''Try Memento and Primer.'')])],
               Exhausted)))
           (JArr [JStr ''Inception'']) (JObj [])))
     = [Data (Start (JStr ''Starting deep research into your movie taste...''))]
   \<and> sent (fst (stream (\<lambda>n. n < 1) 0
           (Imported (\<lambda>favs prefs.
              ([Yield (JObj [(''type'', JStr ''result''), (''subtype'', JStr ''success''),
                             (''result'', JStr ''Try Memento and Primer.'')])],
               Exhausted)))
           (JArr [JStr ''Inception'']) (JObj [])))
     = [Start (JStr ''Starting deep research into your movie taste...''), Result (JStr ''Try Memento and Primer.''), Done]
   \<and> (snd (stream (\<lambda>n. n < 1) 0
           (Imported (\<lambda>favs prefs.
              ([Yield (JObj [(''type'', JStr ''result''), (''subtype'', JStr ''success''),
                             (''result'', JStr ''Try Memento and Primer.'')])],
               Exhausted)))
           (JArr [JStr ''Inception'']) (JObj []))) = None"
proof -
  let ?ok = "JObj [(''type'', JStr ''result''), (''subtype'', JStr ''success''),
                             (''result'', JStr ''Try Memento and Primer.'')]"
  let ?agent = "Imported (\<lambda>favs prefs. ([Yield ?ok], Exhausted))"
  have open_run: "sent (fst (stream (\<lambda>n. True) 0 ?agent (JArr [JStr ''Inception'']) (JObj [])))
           = [Start (JStr ''Starting deep research into your movie taste...''), Result (JStr ''Try Memento and Primer.''), Done]
        \<and> snd (stream (\<lambda>n. True) 0 ?agent (JArr [JStr ''Inception'']) (JObj [])) = None"
    by (simp add: stream_eval relay_eval sent_def)
  have first: "map fst (filter snd (take 1 (calls (fst (stream (\<lambda>n. n < 1) 0 ?agent
                 (JArr [JStr ''Inception'']) (JObj []))))))
           = [Data (Start (JStr ''Starting deep research into your movie taste...''))]"
    by (simp add: stream_eval relay_eval)
  show ?thesis
    using write_failure_swallowed
      [of "\<lambda>n. n < 1" 0 ?agent "JArr [JStr ''Inception'']" "JObj []" 1]
      open_run first
    by simp
qed

text \<open>
  C4 as stated fails: after the first write has failed, \<^verbatim>\<open>res.write\<close> is still called
  for the \<^verbatim>\<open>result\<close> and the \<^verbatim>\<open>done\<close> event, and these frames are written when the
  calls succeed; when the connection stays closed the calls are made all the same.
\<close>

theorem write_after_failure_counterexample:
  "calls (fst (stream (\<lambda>n. n \<noteq> 0) 0
           (Imported (\<lambda>favs prefs.
              ([Yield (JObj [(''type'', JStr ''result''), (''subtype'', JStr ''success''),
                             (''result'', JStr ''Try Memento and Primer.'')])],
               Exhausted)))
           (JArr [JStr ''Inception'']) (JObj [])))
     = [(Data (Start (JStr ''Starting deep research into your movie taste...'')), False),
        (Data (Result (JStr ''Try Memento and Primer.'')), True),
        (Data Done, True)]
   \<and> calls (fst (stream (\<lambda>n. False) 0
           (Imported (\<lambda>favs prefs.
              ([Yield (JObj [(''type'', JStr ''result''), (''subtype'', JStr ''success''),
                             (''result'', JStr ''Try Memento and Primer.'')])],
               Exhausted)))
           (JArr [JStr ''Inception'']) (JObj [])))
     = [(Data (Start (JStr ''Starting deep research into your movie taste...'')), False),
        (Data (Result (JStr ''Try Memento and Primer.'')), False),
        (Data Done, False)]"
  by (simp add: stream_eval relay_eval)

section \<open>Properties of the handler\<close>

lemma try_block_default_prefs:
  "try_block conn pre (Imported run) favoriteMovies JUndefined =
     try_block conn pre (Imported (\<lambda>favs prefs. run favs (JObj []))) favoriteMovies
       moviePreferences"
  by (simp add: try_block_def js_or_def)

text \<open>
  For a request with a body, validation comes before any streaming: when
  \<^verbatim>\<open>favoriteMovies\<close> is not a non-empty array the response is status 400 with an error
  object; otherwise, when the API key is not set (or empty), it is status 500 with an error
  object; in both cases nothing is streamed. Otherwise the response is the stream. When
  \<^verbatim>\<open>moviePreferences\<close> is absent the agent is run with the empty object.
\<close>

lemma request_validation:
  assumes "\<not> nullish body"
  shows
    "(\<not> is_array (js_get body ''favoriteMovies'')
        \<or> array_length (js_get body ''favoriteMovies'') = 0 \<longrightarrow>
      handler conn key pre agent body =
        Json_response 400 (JObj [(''error'', JStr ''favoriteMovies must be a non-empty array'')]))
     \<and> (is_array (js_get body ''favoriteMovies'')
        \<and> array_length (js_get body ''favoriteMovies'') \<noteq> 0
        \<and> (key = None \<or> key = Some []) \<longrightarrow>
      handler conn key pre agent body =
        Json_response 500
          (JObj [(''error'', JStr ''ANTHROPIC_API_KEY environment variable is not set'')]))
     \<and> (is_array (js_get body ''favoriteMovies'')
        \<and> array_length (js_get body ''favoriteMovies'') \<noteq> 0
        \<and> key = Some (c # cs) \<longrightarrow>
      handler conn key pre agent body =
        Streamed
          (fst (stream conn pre agent (js_get body ''favoriteMovies'')
                  (js_get body ''moviePreferences'')))
          (snd (stream conn pre agent (js_get body ''favoriteMovies'')
                  (js_get body ''moviePreferences''))))
     \<and> (js_get body ''moviePreferences'' = JUndefined \<longrightarrow>
      handler conn key pre (Imported run) body =
        handler conn key pre (Imported (\<lambda>favs prefs. run favs (JObj []))) body)"
proof -
  have "stream conn pre (Imported run) favs JUndefined =
          stream conn pre (Imported (\<lambda>favs prefs. run favs (JObj []))) favs JUndefined" for favs
    using try_block_default_prefs [of conn pre run favs JUndefined]
    by (simp add: stream_def)
  then show ?thesis
    using assms by (auto simp: handler_def Let_def split: prod.splits option.splits)
qed

text \<open>
  C8, where the handler departs from it. A request without a body (\<^verbatim>\<open>req.body\<close> is
  \<^verbatim>\<open>undefined\<close> or \<^verbatim>\<open>null\<close>) has no \<^verbatim>\<open>favoriteMovies\<close> array, yet it is not answered
  with status 400: the destructuring of \<^verbatim>\<open>req.body\<close> on line 128 throws before the check
  on line 130 is reached, and the handler sends no JSON response and opens no stream.
\<close>

theorem bodyless_request_throws:
  assumes "nullish body"
  shows "handler conn key pre agent body =
           Rejected (type_error ''Cannot destructure property favoriteMovies'')
       \<and> (\<forall>status error. handler conn key pre agent body \<noteq> Json_response status error)
       \<and> (\<forall>s r. handler conn key pre agent body \<noteq> Streamed s r)"
  using assms by (simp add: handler_def)

theorem bodyless_request_throws_witness:
  "handler (\<lambda>n. True) (Some ''sk-key'') 0 (Imported (\<lambda>favs prefs. ([], Exhausted))) JUndefined
     = Rejected (type_error ''Cannot destructure property favoriteMovies'')
   \<and> handler (\<lambda>n. True) (Some ''sk-key'') 0 (Imported (\<lambda>favs prefs. ([], Exhausted))) JUndefined
       \<noteq> Json_response 400
            (JObj [(''error'', JStr ''favoriteMovies must be a non-empty array'')])"
  using bodyless_request_throws
    [of JUndefined "\<lambda>n. True" "Some ''sk-key''" 0 "Imported (\<lambda>favs prefs. ([], Exhausted))"]
  by simp

end
